theory Spec2Isabelle
  imports Complex_Main "HOL-Library.Word"
begin

unbundle bit_operations_syntax

section \<open>Numeric conventions\<close>

text \<open>
  The reconstruction engine computes on C++ \<open>float\<close> and \<open>int\<close>. Distances and coordinates
  are modelled as \<open>real\<close>, grid indices as \<open>int\<close>, container sizes and counters as \<open>nat\<close>,
  and the 64-bit welding key as \<open>64 word\<close>. \<open>FLT_MAX\<close> is
  \<open>std::numeric_limits<float>::max()\<close>, the "far outside" value.

  Single-precision effects are written out where they decide what the code does, not only
  the last digits of a value:
  \<^item> the voxel range of a segment is an integer computed from rounded sums and quotients;
    every float operation on that path is followed by a rounding function \<open>fl\<close>, a
    parameter of the rasterizer. Nothing is assumed of \<open>fl\<close>: the theorems hold for
    round-to-nearest single precision and equally for exact arithmetic, \<open>exact\<close>;
  \<^item> the interpolation parameter of a crossed edge is \<open>0 / 0\<close>, a NaN, on one
    configuration of corner values; that vertex, and every normal computed from it or from
    a vector of length zero, is \<open>None\<close>.
  Elsewhere values are exact reals. Overflow of \<open>int\<close> is left out: the code cannot reach it
  for resolutions up to the 1024 that \<open>validate\<close> allows (the largest flat index is below
  \<open>2\<^sup>3\<^sup>0\<close>). Logging and wall-clock timing are not modelled.
\<close>

definition FLT_MAX :: real where
  "FLT_MAX = 340282346638528859811704183484516925440"

text \<open>\<open>std::max(a, b)\<close> is \<open>(a < b) ? b : a\<close>, \<open>std::min(a, b)\<close> is \<open>(b < a) ? b : a\<close>
  and \<open>std::clamp(v, lo, hi)\<close> is \<open>(v < lo) ? lo : (hi < v) ? hi : v\<close>.\<close>

definition std_max :: "'a::linorder \<Rightarrow> 'a \<Rightarrow> 'a" where
  "std_max a b = (if a < b then b else a)"

definition std_min :: "'a::linorder \<Rightarrow> 'a \<Rightarrow> 'a" where
  "std_min a b = (if b < a then b else a)"

definition std_clamp :: "'a::linorder \<Rightarrow> 'a \<Rightarrow> 'a \<Rightarrow> 'a" where
  "std_clamp v lo hi = (if v < lo then lo else if hi < v then hi else v)"

text \<open>\<open>std::round\<close>: to the nearest integer, halfway cases away from zero.\<close>

definition std_round :: "real \<Rightarrow> int" where
  "std_round q = (if 0 \<le> q then \<lfloor>q + 1 / 2\<rfloor> else \<lceil>q - 1 / 2\<rceil>)"

section \<open>Data model\<close>

record vec3 =
  vx :: real
  vy :: real
  vz :: real

record ivec3 =
  ix :: int
  iy :: int
  iz :: int

record AABB =
  aabb_min :: vec3
  aabb_max :: vec3

record ToolpathSegment =
  seg_start :: vec3
  seg_end :: vec3
  is_extrusion :: bool
  feature_type :: string

record Layer =
  segments :: "ToolpathSegment list"

record ParsedGCodeFile =
  layers :: "Layer list"
  global_bounding_box :: AABB

record DenseVoxelGrid =
  resolution :: int
  bounds :: AABB
  voxel_size :: real
  data :: "real list"

datatype GridType = Dense | Sparse

record SDFOptions =
  grid_resolution :: int
  smoothing_radius :: real
  use_smooth_minimum :: bool
  segment_radius_mm :: real
  iso_value :: real
  grid_type :: GridType
  max_z_height :: real

section \<open>Vector helpers (glm)\<close>

definition vec3_of :: "real \<Rightarrow> real \<Rightarrow> real \<Rightarrow> vec3" where
  "vec3_of a b c = \<lparr>vx = a, vy = b, vz = c\<rparr>"

definition ivec3_of :: "int \<Rightarrow> int \<Rightarrow> int \<Rightarrow> ivec3" where
  "ivec3_of a b c = \<lparr>ix = a, iy = b, iz = c\<rparr>"

definition vsub :: "vec3 \<Rightarrow> vec3 \<Rightarrow> vec3" where
  "vsub p q = vec3_of (vx p - vx q) (vy p - vy q) (vz p - vz q)"

definition vadd :: "vec3 \<Rightarrow> vec3 \<Rightarrow> vec3" where
  "vadd p q = vec3_of (vx p + vx q) (vy p + vy q) (vz p + vz q)"

definition vscale :: "real \<Rightarrow> vec3 \<Rightarrow> vec3" where
  "vscale t p = vec3_of (t * vx p) (t * vy p) (t * vz p)"

definition vdiv :: "vec3 \<Rightarrow> real \<Rightarrow> vec3" where
  "vdiv p s = vec3_of (vx p / s) (vy p / s) (vz p / s)"

definition exact :: "real \<Rightarrow> real" where
  "exact a = a"

definition vfl :: "(real \<Rightarrow> real) \<Rightarrow> vec3 \<Rightarrow> vec3" where
  "vfl fl p = vec3_of (fl (vx p)) (fl (vy p)) (fl (vz p))"

definition vdot :: "vec3 \<Rightarrow> vec3 \<Rightarrow> real" where
  "vdot p q = vx p * vx q + vy p * vy q + vz p * vz q"

definition vlength :: "vec3 \<Rightarrow> real" where
  "vlength p = sqrt (vdot p p)"

definition vdistance :: "vec3 \<Rightarrow> vec3 \<Rightarrow> real" where
  "vdistance p q = vlength (vsub p q)"

definition vmin :: "vec3 \<Rightarrow> vec3 \<Rightarrow> vec3" where
  "vmin p q = vec3_of (std_min (vx p) (vx q)) (std_min (vy p) (vy q)) (std_min (vz p) (vz q))"

definition vmax :: "vec3 \<Rightarrow> vec3 \<Rightarrow> vec3" where
  "vmax p q = vec3_of (std_max (vx p) (vx q)) (std_max (vy p) (vy q)) (std_max (vz p) (vz q))"

definition vmix :: "vec3 \<Rightarrow> vec3 \<Rightarrow> real \<Rightarrow> vec3" where
  "vmix p q t = vadd (vscale (1 - t) p) (vscale t q)"

definition iadd :: "ivec3 \<Rightarrow> ivec3 \<Rightarrow> ivec3" where
  "iadd p q = ivec3_of (ix p + ix q) (iy p + iy q) (iz p + iz q)"

definition imin :: "ivec3 \<Rightarrow> ivec3 \<Rightarrow> ivec3" where
  "imin p q = ivec3_of (std_min (ix p) (ix q)) (std_min (iy p) (iy q)) (std_min (iz p) (iz q))"

definition imax :: "ivec3 \<Rightarrow> ivec3 \<Rightarrow> ivec3" where
  "imax p q = ivec3_of (std_max (ix p) (ix q)) (std_max (iy p) (iy q)) (std_max (iz p) (iz q))"

definition aabb_size :: "AABB \<Rightarrow> vec3" where
  "aabb_size b = vsub (aabb_max b) (aabb_min b)"

section \<open>Dense voxel grid\<close>

definition index :: "DenseVoxelGrid \<Rightarrow> int \<Rightarrow> int \<Rightarrow> int \<Rightarrow> nat" where
  "index g x y z = nat (z * resolution g * resolution g + y * resolution g + x)"

definition in_bounds :: "DenseVoxelGrid \<Rightarrow> int \<Rightarrow> int \<Rightarrow> int \<Rightarrow> bool" where
  "in_bounds g x y z =
     (x \<ge> 0 \<and> x < resolution g \<and> y \<ge> 0 \<and> y < resolution g \<and> z \<ge> 0 \<and> z < resolution g)"

text \<open>The constructor: the voxel size comes from the largest axis of the box, and every
  cell starts at the "far outside" value.\<close>

definition DenseVoxelGrid_new :: "int \<Rightarrow> AABB \<Rightarrow> DenseVoxelGrid" where
  "DenseVoxelGrid_new res b =
     (let sz = aabb_size b;
          max_dim = std_max (std_max (vx sz) (vy sz)) (vz sz)
      in \<lparr>resolution = res, bounds = b,
          voxel_size = max_dim / real_of_int (res - 1),
          data = replicate (nat (res * res * res)) FLT_MAX\<rparr>)"

definition DenseVoxelGrid_get :: "DenseVoxelGrid \<Rightarrow> int \<Rightarrow> int \<Rightarrow> int \<Rightarrow> real" where
  "DenseVoxelGrid_get g x y z =
     (if \<not> in_bounds g x y z then FLT_MAX else data g ! index g x y z)"

definition DenseVoxelGrid_set :: "DenseVoxelGrid \<Rightarrow> int \<Rightarrow> int \<Rightarrow> int \<Rightarrow> real \<Rightarrow> DenseVoxelGrid" where
  "DenseVoxelGrid_set g x y z v =
     (if in_bounds g x y z then g\<lparr>data := (data g)[index g x y z := v]\<rparr> else g)"

definition fill :: "DenseVoxelGrid \<Rightarrow> real \<Rightarrow> DenseVoxelGrid" where
  "fill g v = g\<lparr>data := replicate (length (data g)) v\<rparr>"

definition world_to_voxel :: "(real \<Rightarrow> real) \<Rightarrow> DenseVoxelGrid \<Rightarrow> vec3 \<Rightarrow> ivec3" where
  "world_to_voxel fl g pos =
     (let voxel_pos = vfl fl (vdiv (vfl fl (vsub pos (aabb_min (bounds g)))) (voxel_size g))
      in ivec3_of (std_round (vx voxel_pos)) (std_round (vy voxel_pos)) (std_round (vz voxel_pos)))"

definition voxel_to_world :: "DenseVoxelGrid \<Rightarrow> ivec3 \<Rightarrow> vec3" where
  "voxel_to_world g v =
     vadd (aabb_min (bounds g))
          (vscale (voxel_size g) (vec3_of (real_of_int (ix v)) (real_of_int (iy v)) (real_of_int (iz v))))"

definition memory_usage :: "DenseVoxelGrid \<Rightarrow> nat" where
  "memory_usage g = length (data g) * 4"

text \<open>The class invariant the constructor establishes and \<open>set\<close> keeps: the flat array
  holds \<open>resolution\<^sup>3\<close> cells. Under it every in-bounds index is inside the array.\<close>

definition grid_wf :: "DenseVoxelGrid \<Rightarrow> bool" where
  "grid_wf g = (0 < resolution g \<and> length (data g) = nat (resolution g * resolution g * resolution g))"

section \<open>Build options\<close>

definition validate :: "SDFOptions \<Rightarrow> SDFOptions" where
  "validate o1 =
     (let o2 = o1\<lparr>grid_resolution := std_max 64 (std_min 1024 (grid_resolution o1))\<rparr>;
          o3 = o2\<lparr>smoothing_radius := std_max (1 / 10) (std_min 2 (smoothing_radius o2))\<rparr>
      in o3\<lparr>segment_radius_mm := std_max (5 / 100) (std_min 1 (segment_radius_mm o3))\<rparr>)"


section \<open>Capsule distance and smooth minimum\<close>

definition capsule_sdf :: "vec3 \<Rightarrow> vec3 \<Rightarrow> vec3 \<Rightarrow> real \<Rightarrow> real" where
  "capsule_sdf point start end1 radius =
     (let segment = vsub end1 start;
          segment_length = vlength segment
      in if segment_length < 1 / 10000 then vdistance point start - radius
         else
           let to_point = vsub point start;
               t = std_clamp (vdot to_point segment / (segment_length * segment_length)) 0 1;
               closest = vadd start (vscale t segment)
           in vdistance point closest - radius)"

definition smooth_min :: "real \<Rightarrow> real \<Rightarrow> real \<Rightarrow> real" where
  "smooth_min a b k =
     (let h = std_max (k - \<bar>a - b\<bar>) 0 / k
      in std_min a b - h * h * k * (1 / 4))"

section \<open>Loops over the grid\<close>

text \<open>The source walks the grid with the same triple loop everywhere:
  \<^verbatim>\<open>for z ... for y ... for x ... body(x, y, z)\<close>, \<open>x\<close> innermost.\<close>

definition for_xyz :: "int list \<Rightarrow> int list \<Rightarrow> int list \<Rightarrow> (int \<Rightarrow> int \<Rightarrow> int \<Rightarrow> 's \<Rightarrow> 's) \<Rightarrow> 's \<Rightarrow> 's" where
  "for_xyz zs ys xs body s = fold (\<lambda>z. fold (\<lambda>y. fold (\<lambda>x. body x y z) xs) ys) zs s"

text \<open>The cells such a loop visits, in order.\<close>

definition cells :: "int list \<Rightarrow> int list \<Rightarrow> int list \<Rightarrow> (int \<times> int \<times> int) list" where
  "cells zs ys xs = concat (map (\<lambda>z. concat (map (\<lambda>y. map (\<lambda>x. (x, y, z)) xs) ys)) zs)"

section \<open>SDF rasterizer\<close>

text \<open>\<open>std::string::find(pattern)\<close>: the position of the first occurrence, \<open>None\<close> for
  \<open>npos\<close>.\<close>

fun str_find :: "string \<Rightarrow> string \<Rightarrow> nat option" where
  "str_find [] p = (if p = [] then Some 0 else None)"
| "str_find (c # cs) p =
     (if take (length p) (c # cs) = p then Some 0 else map_option Suc (str_find cs p))"

definition found :: "string \<Rightarrow> string \<Rightarrow> bool" where
  "found s p = (case str_find s p of None \<Rightarrow> False | Some _ \<Rightarrow> True)"

definition is_shell_feature :: "string \<Rightarrow> bool" where
  "is_shell_feature ft =
     (found ft ''wall'' \<or> found ft ''Wall'' \<or>
      found ft ''perimeter'' \<or> found ft ''Perimeter'' \<or>
      found ft ''surface'' \<or> found ft ''Surface'' \<or>
      found ft ''skin'' \<or> found ft ''Skin'' \<or>
      found ft ''bridge'' \<or> found ft ''Bridge'')"

text \<open>The state of the segment loop: the target grid and the two counters the loop
  keeps (they are written to the log only). The per-label debug tallies, which only feed
  the log as well, are left out.\<close>

record SdfState =
  sdf_grid :: DenseVoxelGrid
  segments_processed :: nat
  segments_filtered :: nat

definition rasterize_voxel :: "ToolpathSegment \<Rightarrow> real \<Rightarrow> real \<Rightarrow> int \<Rightarrow> int \<Rightarrow> int \<Rightarrow> DenseVoxelGrid \<Rightarrow> DenseVoxelGrid" where
  "rasterize_voxel segment segment_radius smoothing x y z grid =
     (let voxel_center = voxel_to_world grid (ivec3_of x y z);
          dist = capsule_sdf voxel_center (seg_start segment) (seg_end segment) segment_radius;
          current = DenseVoxelGrid_get grid x y z;
          blended = smooth_min current dist smoothing
      in DenseVoxelGrid_set grid x y z blended)"

text \<open>The influence box of a segment (\<open>seg_min\<close>, \<open>seg_max\<close>) and the voxel range the
  loop walks (\<open>voxel_min\<close>, \<open>voxel_max\<close>, after clamping to the grid).\<close>

definition seg_min :: "(real \<Rightarrow> real) \<Rightarrow> ToolpathSegment \<Rightarrow> real \<Rightarrow> vec3" where
  "seg_min fl segment influence_radius =
     vfl fl (vsub (vmin (seg_start segment) (seg_end segment))
                  (vec3_of influence_radius influence_radius influence_radius))"

definition seg_max :: "(real \<Rightarrow> real) \<Rightarrow> ToolpathSegment \<Rightarrow> real \<Rightarrow> vec3" where
  "seg_max fl segment influence_radius =
     vfl fl (vadd (vmax (seg_start segment) (seg_end segment))
                  (vec3_of influence_radius influence_radius influence_radius))"

definition voxel_min :: "(real \<Rightarrow> real) \<Rightarrow> DenseVoxelGrid \<Rightarrow> ToolpathSegment \<Rightarrow> real \<Rightarrow> ivec3" where
  "voxel_min fl grid segment influence_radius =
     imax (world_to_voxel fl grid (seg_min fl segment influence_radius)) (ivec3_of 0 0 0)"

definition voxel_max :: "(real \<Rightarrow> real) \<Rightarrow> int \<Rightarrow> DenseVoxelGrid \<Rightarrow> ToolpathSegment \<Rightarrow> real \<Rightarrow> ivec3" where
  "voxel_max fl res grid segment influence_radius =
     imin (world_to_voxel fl grid (seg_max fl segment influence_radius))
          (ivec3_of (res - 1) (res - 1) (res - 1))"

definition rasterize_segment :: "(real \<Rightarrow> real) \<Rightarrow> int \<Rightarrow> real \<Rightarrow> real \<Rightarrow> real \<Rightarrow> ToolpathSegment \<Rightarrow> DenseVoxelGrid \<Rightarrow> DenseVoxelGrid" where
  "rasterize_segment fl res influence_radius segment_radius smoothing segment grid =
     (let vmin = voxel_min fl grid segment influence_radius;
          vmax = voxel_max fl res grid segment influence_radius
      in for_xyz [iz vmin..iz vmax] [iy vmin..iy vmax] [ix vmin..ix vmax]
           (rasterize_voxel segment segment_radius smoothing) grid)"

text \<open>One iteration of the segment loop, with its two \<open>continue\<close>s.\<close>

definition segment_step :: "(real \<Rightarrow> real) \<Rightarrow> int \<Rightarrow> real \<Rightarrow> real \<Rightarrow> real \<Rightarrow> ToolpathSegment \<Rightarrow> SdfState \<Rightarrow> SdfState" where
  "segment_step fl res influence_radius segment_radius smoothing segment st =
     (if \<not> is_extrusion segment then st
      else if feature_type segment \<noteq> [] \<and> \<not> is_shell_feature (feature_type segment)
        then st\<lparr>segments_filtered := segments_filtered st + 1\<rparr>
      else st\<lparr>sdf_grid := rasterize_segment fl res influence_radius segment_radius smoothing
                              segment (sdf_grid st),
              segments_processed := segments_processed st + 1\<rparr>)"

definition generate_sdf :: "(real \<Rightarrow> real) \<Rightarrow> DenseVoxelGrid \<Rightarrow> ToolpathSegment list \<Rightarrow> real \<Rightarrow> real \<Rightarrow> SdfState" where
  "generate_sdf fl grid segs segment_radius smoothing =
     (let res = resolution grid;
          vsize = voxel_size grid;
          influence_radius = fl (fl (segment_radius + smoothing) + vsize)
      in fold (segment_step fl res influence_radius segment_radius smoothing) segs
           \<lparr>sdf_grid = grid, segments_processed = 0, segments_filtered = 0\<rparr>)"

text \<open>The label filter as the specification words it, for comparison with
  \<open>is_shell_feature\<close>: a case-insensitive substring match against the keywords shell,
  perimeter, surface, skin and bridge.\<close>

definition to_lower :: "char \<Rightarrow> char" where
  "to_lower c =
     (let n = of_char c :: nat in if 65 \<le> n \<and> n \<le> 90 then char_of (n + 32) else c)"

definition spec_shell_label :: "string \<Rightarrow> bool" where
  "spec_shell_label label =
     (let l = map to_lower label
      in found l ''shell'' \<or> found l ''perimeter'' \<or> found l ''surface'' \<or>
         found l ''skin'' \<or> found l ''bridge'')"

text \<open>The segments the loop rasterizes: extruding, and either unlabelled or carrying one
  of the ten literal substrings the code looks for.\<close>

definition accepted :: "ToolpathSegment \<Rightarrow> bool" where
  "accepted s =
     (is_extrusion s \<and>
      (feature_type s = [] \<or>
       found (feature_type s) ''wall'' \<or> found (feature_type s) ''Wall'' \<or>
       found (feature_type s) ''perimeter'' \<or> found (feature_type s) ''Perimeter'' \<or>
       found (feature_type s) ''surface'' \<or> found (feature_type s) ''Surface'' \<or>
       found (feature_type s) ''skin'' \<or> found (feature_type s) ''Skin'' \<or>
       found (feature_type s) ''bridge'' \<or> found (feature_type s) ''Bridge''))"

definition rejected :: "ToolpathSegment \<Rightarrow> bool" where
  "rejected s = (is_extrusion s \<and> feature_type s \<noteq> [] \<and> \<not> is_shell_feature (feature_type s))"




section \<open>Marching-cubes extractor\<close>

text \<open>A vertex or a normal whose coordinates are NaN is \<open>None\<close>.\<close>

record TriangleMesh =
  vertices :: "vec3 option list"
  normals :: "vec3 option list"
  indices :: "nat list"

definition triangle_count :: "TriangleMesh \<Rightarrow> nat" where
  "triangle_count m = length (indices m) div 3"

definition mesh_memory_usage :: "TriangleMesh \<Rightarrow> nat" where
  "mesh_memory_usage m = length (vertices m) * 12 + length (normals m) * 12 + length (indices m) * 4"

text \<open>The 256-entry case tables live in \<open>marching_cubes_tables.h\<close>, which is not part of
  the sources at hand; the extractor takes them as a parameter. A row of the triangle
  table is a list of edge numbers ended by \<open>-1\<close>.\<close>

record McTables =
  edge_table :: "int \<Rightarrow> int"
  triangle_table :: "int \<Rightarrow> int list"

definition corner_offsets :: "ivec3 list" where
  "corner_offsets =
     [ivec3_of 0 0 0, ivec3_of 1 0 0, ivec3_of 1 1 0, ivec3_of 0 1 0,
      ivec3_of 0 0 1, ivec3_of 1 0 1, ivec3_of 1 1 1, ivec3_of 0 1 1]"

definition edge_connections :: "(nat \<times> nat) list" where
  "edge_connections =
     [(0, 1), (1, 2), (2, 3), (3, 0),
      (4, 5), (5, 6), (6, 7), (7, 4),
      (0, 4), (1, 5), (2, 6), (3, 7)]"

definition make_edge_key :: "ivec3 \<Rightarrow> ivec3 \<Rightarrow> 64 word" where
  "make_edge_key c0 c1 =
     (let min_c = imin c0 c1;
          max_c = imax c0 c1;
          axis = (if ix max_c \<noteq> ix min_c then 0 else if iy max_c \<noteq> iy min_c then 1 else 2) :: 64 word
      in push_bit 44 (word_of_int (ix min_c)) OR
         push_bit 30 (word_of_int (iy min_c)) OR
         push_bit 16 (word_of_int (iz min_c)) OR
         push_bit 14 axis)"

text \<open>The state of the cube loop: the mesh under construction, the welding cache and the
  two counters.\<close>

record ExtractState =
  mesh :: TriangleMesh
  vertex_cache :: "64 word \<rightharpoonup> nat"
  cubes_processed :: nat
  triangles_generated :: nat

definition cube_index_of :: "real list \<Rightarrow> real \<Rightarrow> int" where
  "cube_index_of corner_values iso_v =
     fold (\<lambda>i cube_index. if corner_values ! i < iso_v then cube_index OR push_bit i 1 else cube_index)
       [0..<8] 0"

text \<open>The corners an edge of the cube at \<open>(x, y, z)\<close> joins, and its welding key.\<close>

definition edge_corner0 :: "int \<Rightarrow> int \<Rightarrow> int \<Rightarrow> nat \<Rightarrow> ivec3" where
  "edge_corner0 x y z edge = iadd (ivec3_of x y z) (corner_offsets ! fst (edge_connections ! edge))"

definition edge_corner1 :: "int \<Rightarrow> int \<Rightarrow> int \<Rightarrow> nat \<Rightarrow> ivec3" where
  "edge_corner1 x y z edge = iadd (ivec3_of x y z) (corner_offsets ! snd (edge_connections ! edge))"

definition cell_edge_key :: "int \<Rightarrow> int \<Rightarrow> int \<Rightarrow> nat \<Rightarrow> 64 word" where
  "cell_edge_key x y z edge = make_edge_key (edge_corner0 x y z edge) (edge_corner1 x y z edge)"

definition edge_crossed :: "int \<Rightarrow> nat \<Rightarrow> bool" where
  "edge_crossed edge_flags edge = (edge_flags AND push_bit edge 1 \<noteq> 0)"

text \<open>The interpolation parameter of an edge, \<open>(iso - v0) / (v1 - v0 + 0.0001f)\<close> clamped to
  \<open>[0, 1]\<close>. Where the denominator is zero the quotient is an infinity, which the clamp
  turns into 0 or 1, or it is \<open>0 / 0\<close>, a NaN, which \<open>std::clamp\<close> hands back.\<close>

definition edge_t :: "real \<Rightarrow> real \<Rightarrow> real \<Rightarrow> real option" where
  "edge_t iso_v v0 v1 =
     (let num = iso_v - v0;
          den = v1 - v0 + 1 / 10000
      in if den = 0 then (if num = 0 then None else if 0 < num then Some 1 else Some 0)
         else Some (std_clamp (num / den) 0 1))"

text \<open>One iteration of the edge loop of a cube. \<open>edge_vertices\<close> is the cube's local
  array of 12 vertex indices. \<open>glm::mix\<close> with a NaN parameter gives a NaN position.\<close>

fun edge_step :: "real \<Rightarrow> int \<Rightarrow> int \<Rightarrow> int \<Rightarrow> real list \<Rightarrow> vec3 list \<Rightarrow> int \<Rightarrow> nat \<Rightarrow>
    ExtractState \<times> nat list \<Rightarrow> ExtractState \<times> nat list" where
  "edge_step iso_v x y z corner_values corner_positions edge_flags edge (st, edge_vertices) =
     (if edge_crossed edge_flags edge then
        let c0 = fst (edge_connections ! edge);
            c1 = snd (edge_connections ! edge);
            edge_key = cell_edge_key x y z edge
        in (case vertex_cache st edge_key of
              Some cached \<Rightarrow> (st, edge_vertices[edge := cached])
            | None \<Rightarrow>
                let v0 = corner_values ! c0;
                    v1 = corner_values ! c1;
                    t = edge_t iso_v v0 v1;
                    pos = map_option (vmix (corner_positions ! c0) (corner_positions ! c1)) t;
                    vertex_index = length (vertices (mesh st))
                in (st\<lparr>mesh := (mesh st)\<lparr>vertices := vertices (mesh st) @ [pos],
                                           normals := normals (mesh st) @ [Some (vec3_of 0 0 0)]\<rparr>,
                        vertex_cache := (vertex_cache st)(edge_key \<mapsto> vertex_index)\<rparr>,
                    edge_vertices[edge := vertex_index]))
      else (st, edge_vertices))"

fun triangle_indices :: "int list \<Rightarrow> nat list \<Rightarrow> nat list" where
  "triangle_indices (a # b # c # rest) edge_vertices =
     (if a = - 1 then []
      else edge_vertices ! nat a # edge_vertices ! nat b # edge_vertices ! nat c #
           triangle_indices rest edge_vertices)"
| "triangle_indices _ edge_vertices = []"

definition cube_corners :: "int \<Rightarrow> int \<Rightarrow> int \<Rightarrow> ivec3 list" where
  "cube_corners x y z = map (\<lambda>i. iadd (ivec3_of x y z) (corner_offsets ! i)) [0..<8]"

definition cube_corner_values :: "DenseVoxelGrid \<Rightarrow> int \<Rightarrow> int \<Rightarrow> int \<Rightarrow> real list" where
  "cube_corner_values grid x y z =
     map (\<lambda>c. DenseVoxelGrid_get grid (ix c) (iy c) (iz c)) (cube_corners x y z)"

definition cube_corner_positions :: "DenseVoxelGrid \<Rightarrow> int \<Rightarrow> int \<Rightarrow> int \<Rightarrow> vec3 list" where
  "cube_corner_positions grid x y z = map (voxel_to_world grid) (cube_corners x y z)"

definition process_cube :: "McTables \<Rightarrow> DenseVoxelGrid \<Rightarrow> real \<Rightarrow> real \<Rightarrow> int \<Rightarrow> int \<Rightarrow> int \<Rightarrow> ExtractState \<Rightarrow> ExtractState" where
  "process_cube tables grid iso_v max_z x y z st =
     (let corner_values = cube_corner_values grid x y z;
          corner_positions = cube_corner_positions grid x y z
      in if vz (corner_positions ! 0) > max_z then st
         else
           let cube_index = cube_index_of corner_values iso_v
           in if cube_index = 0 \<or> cube_index = 255 then st
              else
                let edge_flags = edge_table tables cube_index;
                    (st1, edge_vertices) =
                       fold (edge_step iso_v x y z corner_values corner_positions edge_flags) [0..<12]
                         (st, replicate 12 0);
                    tris = triangle_indices (triangle_table tables cube_index) edge_vertices
                in st1\<lparr>mesh := (mesh st1)\<lparr>indices := indices (mesh st1) @ tris\<rparr>,
                       triangles_generated := triangles_generated st1 + length tris div 3,
                       cubes_processed := cubes_processed st1 + 1\<rparr>)"

definition marching_cubes :: "McTables \<Rightarrow> DenseVoxelGrid \<Rightarrow> real \<Rightarrow> real \<Rightarrow> ExtractState" where
  "marching_cubes tables grid iso_v max_z =
     (let res = resolution grid
      in for_xyz [0..res - 2] [0..res - 2] [0..res - 2] (process_cube tables grid iso_v max_z)
           \<lparr>mesh = \<lparr>vertices = [], normals = [], indices = []\<rparr>, vertex_cache = Map.empty,
            cubes_processed = 0, triangles_generated = 0\<rparr>)"

subsection \<open>Vertex normals\<close>

definition vcross :: "vec3 \<Rightarrow> vec3 \<Rightarrow> vec3" where
  "vcross p q = vec3_of (vy p * vz q - vz p * vy q) (vz p * vx q - vx p * vz q) (vx p * vy q - vy p * vx q)"

text \<open>\<open>glm::normalize\<close> multiplies by the inverse square root of the squared length; for
  a vector of length zero that is zero times infinity, a NaN.\<close>

definition vnormalize :: "vec3 \<Rightarrow> vec3 option" where
  "vnormalize p = (if vdot p p = 0 then None else Some (vscale (1 / sqrt (vdot p p)) p))"

definition face_normal_of :: "vec3 option \<Rightarrow> vec3 option \<Rightarrow> vec3 option \<Rightarrow> vec3 option" where
  "face_normal_of a b c =
     (case (a, b, c) of
        (Some v0, Some v1, Some v2) \<Rightarrow> vnormalize (vcross (vsub v1 v0) (vsub v2 v0))
      | _ \<Rightarrow> None)"

definition vadd_nan :: "vec3 option \<Rightarrow> vec3 option \<Rightarrow> vec3 option" where
  "vadd_nan a b = (case (a, b) of (Some p, Some q) \<Rightarrow> Some (vadd p q) | _ \<Rightarrow> None)"

fun accumulate_normals :: "vec3 option list \<Rightarrow> nat list \<Rightarrow> vec3 option list \<times> int list \<Rightarrow>
    vec3 option list \<times> int list" where
  "accumulate_normals vs (i0 # i1 # i2 # rest) (normal_accum, normal_count) =
     (let face_normal = face_normal_of (vs ! i0) (vs ! i1) (vs ! i2);
          a0 = normal_accum[i0 := vadd_nan (normal_accum ! i0) face_normal];
          a1 = a0[i1 := vadd_nan (a0 ! i1) face_normal];
          a2 = a1[i2 := vadd_nan (a1 ! i2) face_normal];
          n0 = normal_count[i0 := normal_count ! i0 + 1];
          n1 = n0[i1 := n0 ! i1 + 1];
          n2 = n1[i2 := n1 ! i2 + 1]
      in accumulate_normals vs rest (a2, n2))"
| "accumulate_normals vs _ acc = acc"

definition compute_normals :: "TriangleMesh \<Rightarrow> TriangleMesh" where
  "compute_normals m =
     (let n = length (vertices m);
          (normal_accum, normal_count) =
             accumulate_normals (vertices m) (indices m) (replicate n (Some (vec3_of 0 0 0)), replicate n 0)
      in m\<lparr>normals :=
             map (\<lambda>i. if normal_count ! i > 0
                       then (case normal_accum ! i of
                               Some a \<Rightarrow> vnormalize (vscale (1 / real_of_int (normal_count ! i)) a)
                             | None \<Rightarrow> None)
                       else Some (vec3_of 0 0 1))
                 [0..<length (normals m)]\<rparr>)"

definition extract_surface :: "McTables \<Rightarrow> DenseVoxelGrid \<Rightarrow> real \<Rightarrow> real \<Rightarrow> TriangleMesh" where
  "extract_surface tables grid iso_v max_z = compute_normals (mesh (marching_cubes tables grid iso_v max_z))"




definition cube_range :: "DenseVoxelGrid \<Rightarrow> (int \<times> int \<times> int) list" where
  "cube_range grid =
     cells [0..resolution grid - 2] [0..resolution grid - 2] [0..resolution grid - 2]"

text \<open>A vertex that is a number lies at height \<open>B\<close> or below.\<close>

definition below_height :: "real \<Rightarrow> vec3 option \<Rightarrow> bool" where
  "below_height B v = (case v of None \<Rightarrow> True | Some p \<Rightarrow> vz p \<le> B)"

section \<open>Sparse voxel grid\<close>

text \<open>The sparse tree is NanoVDB's, an external library. Its builder is modelled by what
  it stores: a background value and the values set so far, keyed by integer coordinate;
  \<open>getValue\<close> answers the stored value, or the background where none was set.\<close>

record NanoGrid =
  background :: real
  voxels :: "int \<times> int \<times> int \<rightharpoonup> real"

definition setValue :: "NanoGrid \<Rightarrow> int \<times> int \<times> int \<Rightarrow> real \<Rightarrow> NanoGrid" where
  "setValue b c v = b\<lparr>voxels := (voxels b)(c \<mapsto> v)\<rparr>"

definition getValue :: "NanoGrid \<Rightarrow> int \<times> int \<times> int \<Rightarrow> real" where
  "getValue b c = (case voxels b c of None \<Rightarrow> background b | Some v \<Rightarrow> v)"

datatype construction_error = RuntimeError string

record SparseVoxelGrid =
  sparse_resolution :: int
  sparse_bounds :: AABB
  sparse_voxel_size :: real
  nanovdb_grid :: "NanoGrid option"
  dense_equivalent :: nat

definition copy_voxel :: "DenseVoxelGrid \<Rightarrow> int \<Rightarrow> int \<Rightarrow> int \<Rightarrow> NanoGrid \<Rightarrow> NanoGrid" where
  "copy_voxel dense_grid x y z builder =
     (let v = DenseVoxelGrid_get dense_grid x y z
      in if v < 10 then setValue builder (x, y, z) v else builder)"

text \<open>The converting constructor. \<open>handle_has_grid\<close> says whether the handle the library
  returns holds a float grid; if not, the constructor throws.\<close>

definition SparseVoxelGrid_new :: "bool \<Rightarrow> DenseVoxelGrid \<Rightarrow> construction_error + SparseVoxelGrid" where
  "SparseVoxelGrid_new handle_has_grid dense_grid =
     (let res = resolution dense_grid;
          builder = for_xyz [0..res - 1] [0..res - 1] [0..res - 1] (copy_voxel dense_grid)
                      \<lparr>background = FLT_MAX, voxels = Map.empty\<rparr>
      in if \<not> handle_has_grid then Inl (RuntimeError ''Failed to create NanoVDB grid'')
         else Inr \<lparr>sparse_resolution = res, sparse_bounds = bounds dense_grid,
                   sparse_voxel_size = voxel_size dense_grid, nanovdb_grid = Some builder,
                   dense_equivalent = memory_usage dense_grid\<rparr>)"

definition SparseVoxelGrid_get :: "SparseVoxelGrid \<Rightarrow> int \<Rightarrow> int \<Rightarrow> int \<Rightarrow> real" where
  "SparseVoxelGrid_get g x y z =
     (case nanovdb_grid g of None \<Rightarrow> FLT_MAX | Some grid \<Rightarrow> getValue grid (x, y, z))"

section \<open>Reconstruction orchestrator\<close>

text \<open>The statistics record; its three wall-clock fields are not modelled.\<close>

record BuildStats =
  input_segments :: nat
  output_triangles :: nat
  output_vertices :: nat
  voxel_grid_bytes :: nat
  output_mesh_bytes :: nat

record SDFBuilder =
  stats :: BuildStats


definition build :: "(real \<Rightarrow> real) \<Rightarrow> McTables \<Rightarrow> SDFBuilder \<Rightarrow> ParsedGCodeFile \<Rightarrow> SDFOptions \<Rightarrow> TriangleMesh \<times> SDFBuilder" where
  "build fl tables builder gcode options =
     (let opts = validate options;
          all_segments = concat (map segments (layers gcode));
          grid0 = DenseVoxelGrid_new (grid_resolution opts) (global_bounding_box gcode);
          grid = sdf_grid (generate_sdf fl grid0 all_segments (segment_radius_mm opts) (smoothing_radius opts));
          m = extract_surface tables grid (iso_value opts) (max_z_height opts)
      in (m, builder\<lparr>stats := \<lparr>input_segments = length all_segments,
                                  output_triangles = triangle_count m,
                                  output_vertices = length (vertices m),
                                  voxel_grid_bytes = memory_usage grid,
                                  output_mesh_bytes = mesh_memory_usage m\<rparr>\<rparr>))"

section \<open>Sample inputs\<close>

definition unit_box :: AABB where
  "unit_box = \<lparr>aabb_min = vec3_of 0 0 0, aabb_max = vec3_of 1 1 1\<rparr>"

definition box63 :: AABB where
  "box63 = \<lparr>aabb_min = vec3_of 0 0 0, aabb_max = vec3_of 63 63 63\<rparr>"

definition grid64 :: DenseVoxelGrid where
  "grid64 = DenseVoxelGrid_new 64 box63"

definition wall_segment :: ToolpathSegment where
  "wall_segment = \<lparr>seg_start = vec3_of (13 / 5) 0 0, seg_end = vec3_of 3 0 0,
                    is_extrusion = True, feature_type = ''Outer wall''\<rparr>"


definition shell_segment :: ToolpathSegment where
  "shell_segment = \<lparr>seg_start = vec3_of 1 2 0, seg_end = vec3_of 5 2 0,
                     is_extrusion = True, feature_type = ''Top shell''\<rparr>"


definition no_tables :: McTables where
  "no_tables = \<lparr>edge_table = (\<lambda>i. 0), triangle_table = (\<lambda>i. [- 1])\<rparr>"






section \<open>Properties\<close>

lemma index_in_range:
  assumes "grid_wf g" "in_bounds g x y z"
  shows "index g x y z < length (data g)"
proof -
  let ?r = "resolution g"
  from assms(2) have b: "0 \<le> x" "x < ?r" "0 \<le> y" "y < ?r" "0 \<le> z" "z < ?r"
    by (simp_all add: in_bounds_def)
  have "y * ?r \<le> (?r - 1) * ?r" using b by (intro mult_right_mono) auto
  moreover have "z * ?r * ?r \<le> (?r - 1) * ?r * ?r" using b by (intro mult_right_mono) auto
  ultimately have "z * ?r * ?r + y * ?r + x < ?r * ?r * ?r"
    using b by (simp add: algebra_simps)
  moreover have "0 \<le> z * ?r * ?r + y * ?r + x" using b by simp
  ultimately show ?thesis using assms(1) by (simp add: index_def grid_wf_def)
qed

lemma smooth_min_upper:
  assumes "0 < k"
  shows "smooth_min a b k \<le> std_min a b"
proof -
  define h where "h = std_max (k - \<bar>a - b\<bar>) 0 / k"
  have hh: "0 \<le> h * h" by simp
  have "0 \<le> (h * h) * k" by (rule mult_nonneg_nonneg [OF hh less_imp_le [OF assms]])
  then have nonneg: "0 \<le> h * h * k * (1 / 4)" by simp
  have "smooth_min a b k = std_min a b - h * h * k * (1 / 4)"
    unfolding smooth_min_def Let_def h_def ..
  with nonneg show ?thesis by linarith
qed

lemma std_min_is_min: "std_min a b = min a b"
  by (auto simp: std_min_def min_def)


text \<open>
  C3. For all values \<open>a\<close>, \<open>b\<close> and every smoothing factor \<open>k > 0\<close>, the polynomial smooth
  minimum \<open>min(a,b) - h\<^sup>2\<cdot>k/4\<close> with \<open>h = max(k - |a-b|, 0)/k\<close> is at most \<open>min(a,b)\<close>.
\<close>

theorem smooth_min_le_min:
  assumes "0 < k"
  shows "smooth_min a b k \<le> min a b"
  using smooth_min_upper [OF assms, of a b] by (simp add: std_min_is_min)

theorem smooth_min_le_min_witness:
  "(0::real) < 1 / 2 \<and> smooth_min 1 (5 / 4) (1 / 2) \<le> min 1 (5 / 4) \<and> smooth_min 1 (5 / 4) (1 / 2) = 31 / 32"
  using smooth_min_le_min [of "1 / 2" 1 "5 / 4"]
  by (simp add: smooth_min_def std_max_def std_min_def)

subsection \<open>Dense grid contract\<close>

text \<open>
  C6. For a coordinate triple with any component outside \<open>[0, resolution)\<close>,
  \<open>DenseVoxelGrid::get\<close> answers the far-outside value and \<open>DenseVoxelGrid::set\<close> leaves
  the grid as it was; both take the guarded branch and never index the array.
\<close>

theorem dense_grid_out_of_range:
  assumes "x < 0 \<or> resolution g \<le> x \<or> y < 0 \<or> resolution g \<le> y \<or> z < 0 \<or> resolution g \<le> z"
  shows "DenseVoxelGrid_get g x y z = FLT_MAX \<and> DenseVoxelGrid_set g x y z v = g"
proof -
  from assms have "\<not> in_bounds g x y z" by (auto simp: in_bounds_def)
  then show ?thesis by (simp add: DenseVoxelGrid_get_def DenseVoxelGrid_set_def)
qed

theorem dense_grid_out_of_range_witness:
  "resolution (DenseVoxelGrid_new 2 unit_box) \<le> 2 \<and>
   DenseVoxelGrid_get (DenseVoxelGrid_new 2 unit_box) 2 0 (- 1) = FLT_MAX \<and>
   DenseVoxelGrid_set (DenseVoxelGrid_new 2 unit_box) 2 0 (- 1) 0 = DenseVoxelGrid_new 2 unit_box \<and>
   DenseVoxelGrid_get (DenseVoxelGrid_set (DenseVoxelGrid_new 2 unit_box) 1 0 1 (- 3)) 1 0 1 = - 3"
  using dense_grid_out_of_range [of 2 "DenseVoxelGrid_new 2 unit_box" 0 "- 1" 0]
  by (simp add: DenseVoxelGrid_new_def DenseVoxelGrid_get_def DenseVoxelGrid_set_def in_bounds_def index_def Let_def)

subsection \<open>Option clamping\<close>

lemma validate_keeps: "max_z_height (validate opts) = max_z_height opts" "iso_value (validate opts) = iso_value opts"
  by (simp_all add: validate_def Let_def)

lemma build_mesh:
  "fst (build fl tables b gcode opts) =
     extract_surface tables
       (sdf_grid (generate_sdf fl (DenseVoxelGrid_new (grid_resolution (validate opts)) (global_bounding_box gcode))
          (concat (map segments (layers gcode))) (segment_radius_mm (validate opts)) (smoothing_radius (validate opts))))
       (iso_value opts) (max_z_height opts)"
  by (simp add: build_def Let_def validate_keeps)

text \<open>
  C7. Whatever options are passed, the validated copy has \<open>grid_resolution\<close> in
  \<open>[64, 1024]\<close>, \<open>segment_radius_mm\<close> in \<open>[0.05, 1.0]\<close> and \<open>smoothing_radius\<close> in
  \<open>[0.1, 2.0]\<close>; resolution requests of 32 and 4096 become 64 and 1024, segment-radius
  requests of 0.001 and 10.0 become 0.05 and 1.0. \<open>validate\<close> is total: it corrects, it
  never rejects. \<open>build\<close> works with the validated values: its grid has the clamped
  resolution and is rasterized with the clamped radii.
\<close>

theorem validate_clamps:
  "64 \<le> grid_resolution (validate opts) \<and> grid_resolution (validate opts) \<le> 1024 \<and>
   5 / 100 \<le> segment_radius_mm (validate opts) \<and> segment_radius_mm (validate opts) \<le> 1 \<and>
   1 / 10 \<le> smoothing_radius (validate opts) \<and> smoothing_radius (validate opts) \<le> 2 \<and>
   grid_resolution (validate (opts\<lparr>grid_resolution := 32\<rparr>)) = 64 \<and>
   grid_resolution (validate (opts\<lparr>grid_resolution := 4096\<rparr>)) = 1024 \<and>
   segment_radius_mm (validate (opts\<lparr>segment_radius_mm := 1 / 1000\<rparr>)) = 5 / 100 \<and>
   segment_radius_mm (validate (opts\<lparr>segment_radius_mm := 10\<rparr>)) = 1 \<and>
   fst (build fl tables b gcode opts) =
     extract_surface tables
       (sdf_grid (generate_sdf fl (DenseVoxelGrid_new (grid_resolution (validate opts)) (global_bounding_box gcode))
          (concat (map segments (layers gcode))) (segment_radius_mm (validate opts)) (smoothing_radius (validate opts))))
       (iso_value opts) (max_z_height opts)"
proof -
  have "64 \<le> grid_resolution (validate opts) \<and> grid_resolution (validate opts) \<le> 1024 \<and>
   5 / 100 \<le> segment_radius_mm (validate opts) \<and> segment_radius_mm (validate opts) \<le> 1 \<and>
   1 / 10 \<le> smoothing_radius (validate opts) \<and> smoothing_radius (validate opts) \<le> 2 \<and>
   grid_resolution (validate (opts\<lparr>grid_resolution := 32\<rparr>)) = 64 \<and>
   grid_resolution (validate (opts\<lparr>grid_resolution := 4096\<rparr>)) = 1024 \<and>
   segment_radius_mm (validate (opts\<lparr>segment_radius_mm := 1 / 1000\<rparr>)) = 5 / 100 \<and>
   segment_radius_mm (validate (opts\<lparr>segment_radius_mm := 10\<rparr>)) = 1"
    by (simp add: validate_def Let_def std_max_def std_min_def)
  then show ?thesis using build_mesh [of fl tables b gcode opts] by simp
qed

subsection \<open>The triple loop as a fold over cells\<close>


lemma fold_concat_fold: "fold f (concat xss) s = fold (fold f) xss s"
  by (induction xss arbitrary: s) simp_all

lemma for_xyz_cells: "for_xyz zs ys xs body s = fold (\<lambda>(x, y, z). body x y z) (cells zs ys xs) s"
proof -
  have inner: "\<And>y z. fold (\<lambda>(x, y, z). body x y z) (map (\<lambda>x. (x, y, z)) xs) = fold (\<lambda>x. body x y z) xs"
    by (simp add: fold_map comp_def)
  have middle: "\<And>z. fold (\<lambda>(x, y, z). body x y z) (concat (map (\<lambda>y. map (\<lambda>x. (x, y, z)) xs) ys))
      = fold (\<lambda>y. fold (\<lambda>x. body x y z) xs) ys"
    by (rule ext) (simp add: fold_concat_fold fold_map comp_def inner)
  show ?thesis
    unfolding for_xyz_def cells_def
    by (simp add: fold_concat_fold fold_map comp_def middle)
qed

lemma set_cells: "set (cells zs ys xs) = {(x, y, z). x \<in> set xs \<and> y \<in> set ys \<and> z \<in> set zs}"
  by (auto simp: cells_def)


subsection \<open>Rasterizer frame\<close>






























subsection \<open>Feature filter\<close>

text \<open>\<open>found s p\<close> holds exactly when \<open>p\<close> occurs in \<open>s\<close> as a substring.\<close>

lemma take_is_prefix: "take (length p) s = p \<longleftrightarrow> (\<exists>v. s = p @ v)"
  by (metis append_eq_conv_conj append_take_drop_id)

lemma found_Cons: "found (c # cs) p \<longleftrightarrow> take (length p) (c # cs) = p \<or> found cs p"
  by (auto simp: found_def split: option.splits)

lemma found_iff_substring: "found s p \<longleftrightarrow> (\<exists>u v. s = u @ p @ v)"
proof (induction s)
  case Nil
  then show ?case by (auto simp: found_def)
next
  case (Cons c cs)
  have "(\<exists>u v. c # cs = u @ p @ v) \<longleftrightarrow> (\<exists>v. c # cs = p @ v) \<or> (\<exists>u v. cs = u @ p @ v)"
  proof
    assume "\<exists>u v. c # cs = u @ p @ v"
    then obtain u v where uv: "c # cs = u @ p @ v" by blast
    show "(\<exists>v. c # cs = p @ v) \<or> (\<exists>u v. cs = u @ p @ v)"
    proof (cases u)
      case Nil
      with uv show ?thesis by auto
    next
      case (Cons a u')
      with uv have "cs = u' @ p @ v" by simp
      then show ?thesis by blast
    qed
  next
    assume "(\<exists>v. c # cs = p @ v) \<or> (\<exists>u v. cs = u @ p @ v)"
    then show "\<exists>u v. c # cs = u @ p @ v"
    proof
      assume "\<exists>v. c # cs = p @ v"
      then obtain v where "c # cs = [] @ p @ v" by auto
      then show ?thesis by blast
    next
      assume "\<exists>u v. cs = u @ p @ v"
      then obtain u v where "c # cs = (c # u) @ p @ v" by auto
      then show ?thesis by blast
    qed
  qed
  then show ?case
    unfolding found_Cons Cons.IH take_is_prefix by simp
qed


lemma rejected_not_accepted: "rejected s \<Longrightarrow> \<not> accepted s"
  by (auto simp: accepted_def rejected_def is_shell_feature_def)

lemma segment_step_cases:
  "segment_step fl res ir sr k seg st =
     (if accepted seg
      then st\<lparr>sdf_grid := rasterize_segment fl res ir sr k seg (sdf_grid st),
              segments_processed := segments_processed st + 1\<rparr>
      else if rejected seg then st\<lparr>segments_filtered := segments_filtered st + 1\<rparr>
      else st)"
  by (auto simp: segment_step_def accepted_def rejected_def is_shell_feature_def)

lemma fold_segment_step:
  "fold (segment_step fl res ir sr k) segs st =
     \<lparr>sdf_grid = fold (rasterize_segment fl res ir sr k) (filter accepted segs) (sdf_grid st),
      segments_processed = segments_processed st + length (filter accepted segs),
      segments_filtered = segments_filtered st + length (filter rejected segs)\<rparr>"
proof (induction segs arbitrary: st)
  case Nil
  then show ?case by simp
next
  case (Cons seg segs)
  show ?case
    unfolding fold_Cons comp_def Cons.IH
    by (auto simp: segment_step_cases rejected_not_accepted)
qed

text \<open>
  C1 (as amended). Of the segments passed to \<open>generate_sdf\<close>, exactly the accepted ones
  are rasterized, in order: a non-extruding segment never is, an extruding segment with an
  empty label always is, and an extruding segment with a non-empty label is if and only if
  the label contains one of the literal substrings wall, Wall, perimeter, Perimeter,
  surface, Surface, skin, Skin, bridge, Bridge (a case-sensitive match). The counter of
  processed segments counts the accepted ones, the counter of filtered segments the
  extruding labelled ones without such a substring.
\<close>

theorem generate_sdf_filter:
  "sdf_grid (generate_sdf fl g segs sr k) =
     fold (rasterize_segment fl (resolution g) (fl (fl (sr + k) + voxel_size g)) sr k)
       (filter accepted segs) g \<and>
   segments_processed (generate_sdf fl g segs sr k) = length (filter accepted segs) \<and>
   segments_filtered (generate_sdf fl g segs sr k) = length (filter rejected segs)"
  by (simp add: generate_sdf_def Let_def fold_segment_step)

text \<open>
  C1 as first stated names the keywords shell, perimeter, surface, skin and bridge,
  matched without regard to case. The extruding segment labelled "Outer wall" contains
  none of them and is rasterized; the one labelled "Top shell" contains one and is
  skipped, leaving the grid as it was.
\<close>

theorem feature_filter_counterexample:
  "is_extrusion wall_segment \<and> feature_type wall_segment = ''Outer wall'' \<and>
   \<not> spec_shell_label (feature_type wall_segment) \<and>
   segments_processed (generate_sdf exact grid64 [wall_segment] (1 / 20) (1 / 10)) = 1 \<and>
   is_extrusion shell_segment \<and> feature_type shell_segment = ''Top shell'' \<and>
   spec_shell_label (feature_type shell_segment) \<and>
   segments_processed (generate_sdf exact grid64 [shell_segment] (1 / 20) (1 / 10)) = 0 \<and>
   sdf_grid (generate_sdf exact grid64 [shell_segment] (1 / 20) (1 / 10)) = grid64"
  by (simp add: generate_sdf_def Let_def segment_step_def wall_segment_def shell_segment_def
        is_shell_feature_def spec_shell_label_def found_def to_lower_def)

subsection \<open>Sparse grid lookup\<close>


lemma fold_copy_voxel_background:
  "background (fold (\<lambda>(x, y, z). copy_voxel dense x y z) cs b) = background b"
  by (induction cs arbitrary: b) (auto simp: copy_voxel_def setValue_def Let_def)

lemma fold_copy_voxel:
  "voxels (fold (\<lambda>(x, y, z). copy_voxel dense x y z) cs b) (x, y, z) =
     (if (x, y, z) \<in> set cs \<and> DenseVoxelGrid_get dense x y z < 10
      then Some (DenseVoxelGrid_get dense x y z) else voxels b (x, y, z))"
proof (induction cs arbitrary: b)
  case Nil
  then show ?case by simp
next
  case (Cons c cs)
  obtain a b' c' where c: "c = (a, b', c')" by (cases c) auto
  show ?case
    using Cons.IH [of "copy_voxel dense a b' c' b"]
    by (auto simp: c copy_voxel_def setValue_def Let_def)
qed

lemma builder_getValue:
  "getValue (for_xyz [0..resolution dense - 1] [0..resolution dense - 1] [0..resolution dense - 1]
              (copy_voxel dense) \<lparr>background = FLT_MAX, voxels = Map.empty\<rparr>) (x, y, z) =
   (if in_bounds dense x y z \<and> DenseVoxelGrid_get dense x y z < 10
    then DenseVoxelGrid_get dense x y z else FLT_MAX)"
  unfolding for_xyz_cells getValue_def
  by (auto simp: fold_copy_voxel fold_copy_voxel_background set_cells in_bounds_def)

text \<open>
  C4. The converting constructor fails only when the library hands back no grid; otherwise,
  for every coordinate, \<open>SparseVoxelGrid::get\<close> answers the dense grid's value where the
  coordinate is inside \<open>[0, resolution)\<^sup>3\<close> and that value is below 10.0, and the
  background value \<open>FLT_MAX\<close> everywhere else: cells at 10.0 or above are never stored.
\<close>

theorem sparse_get_matches_dense:
  "(case SparseVoxelGrid_new handle_has_grid dense of
      Inl e \<Rightarrow> \<not> handle_has_grid
    | Inr sparse \<Rightarrow>
        handle_has_grid \<and>
        (\<forall>x y z. SparseVoxelGrid_get sparse x y z =
           (if in_bounds dense x y z \<and> DenseVoxelGrid_get dense x y z < 10
            then DenseVoxelGrid_get dense x y z else FLT_MAX)))"
  by (simp add: SparseVoxelGrid_new_def Let_def SparseVoxelGrid_get_def builder_getValue)

subsection \<open>Cube classification\<close>


lemma fold_cube_bits:
  "bit (fold (\<lambda>i cube_index. if cv ! i < v then cube_index OR push_bit i (1::int) else cube_index) is acc) n
   \<longleftrightarrow> bit acc n \<or> (n \<in> set is \<and> cv ! n < v)"
proof (induction "is" arbitrary: acc)
  case Nil
  then show ?case by simp
next
  case (Cons i "is")
  show ?case
    unfolding fold_Cons comp_def Cons.IH
    by (auto simp: bit_or_iff bit_push_bit_iff bit_1_iff bit_exp_iff)
qed

lemma cube_index_bit:
  "bit (cube_index_of cv v) n \<longleftrightarrow> n < 8 \<and> cv ! n < v"
  unfolding cube_index_of_def fold_cube_bits by auto

lemma cube_index_zero:
  assumes "\<And>i. i < 8 \<Longrightarrow> \<not> cv ! i < v"
  shows "cube_index_of cv v = 0"
proof (rule bit_eqI)
  fix n
  show "bit (cube_index_of cv v) n \<longleftrightarrow> bit (0::int) n"
    using assms [of n] by (simp add: cube_index_bit)
qed

lemma corner_in_bounds:
  assumes "0 \<le> x" "x \<le> resolution g - 2" "0 \<le> y" "y \<le> resolution g - 2" "0 \<le> z" "z \<le> resolution g - 2"
    and "i < 8"
  shows "in_bounds g (ix (cube_corners x y z ! i)) (iy (cube_corners x y z ! i)) (iz (cube_corners x y z ! i))"
proof -
  from \<open>i < 8\<close> have "i \<in> {0, 1, 2, 3, 4, 5, 6, 7}" by auto
  then show ?thesis
    using assms(1-6)
    by (auto simp: cube_corners_def corner_offsets_def iadd_def ivec3_of_def in_bounds_def
          upt_rec [of _ 8])
qed

lemma length_cube_corners: "length (cube_corners x y z) = 8"
  by (simp add: cube_corners_def)

lemma cube_corner_values_nth:
  "i < 8 \<Longrightarrow> cube_corner_values g x y z ! i =
     DenseVoxelGrid_get g (ix (cube_corners x y z ! i)) (iy (cube_corners x y z ! i)) (iz (cube_corners x y z ! i))"
  by (simp add: cube_corner_values_def length_cube_corners)

lemma in_cube_range:
  "(x, y, z) \<in> set (cube_range g) \<longleftrightarrow>
     0 \<le> x \<and> x \<le> resolution g - 2 \<and> 0 \<le> y \<and> y \<le> resolution g - 2 \<and> 0 \<le> z \<and> z \<le> resolution g - 2"
  by (auto simp: cube_range_def set_cells)

lemma fold_unchanged:
  assumes "\<And>c. c \<in> set cs \<Longrightarrow> f c s = s"
  shows "fold f cs s = s"
  using assms by (induction cs) simp_all

lemma marching_cubes_fold:
  "marching_cubes tables g iso_v max_z =
     fold (\<lambda>(x, y, z). process_cube tables g iso_v max_z x y z) (cube_range g)
       \<lparr>mesh = \<lparr>vertices = [], normals = [], indices = []\<rparr>, vertex_cache = Map.empty,
        cubes_processed = 0, triangles_generated = 0\<rparr>"
  by (simp add: marching_cubes_def Let_def for_xyz_cells cube_range_def)

lemma compute_normals_empty:
  "compute_normals \<lparr>vertices = [], normals = [], indices = []\<rparr> = \<lparr>vertices = [], normals = [], indices = []\<rparr>"
  by (simp add: compute_normals_def)

lemma uniform_cube_index:
  assumes "\<forall>x y z. in_bounds g x y z \<longrightarrow> DenseVoxelGrid_get g x y z = iso_v"
    and "(x, y, z) \<in> set (cube_range g)"
  shows "cube_index_of (cube_corner_values g x y z) iso_v = 0"
proof (rule cube_index_zero)
  fix i :: nat assume i: "i < 8"
  from assms(2) have r: "0 \<le> x" "x \<le> resolution g - 2" "0 \<le> y" "y \<le> resolution g - 2"
      "0 \<le> z" "z \<le> resolution g - 2"
    by (simp_all add: in_cube_range)
  from corner_in_bounds [OF r i] assms(1)
  have "cube_corner_values g x y z ! i = iso_v"
    by (simp add: cube_corner_values_nth [OF i])
  then show "\<not> cube_corner_values g x y z ! i < iso_v" by simp
qed

lemma fill_get:
  assumes "grid_wf g" "in_bounds g x y z"
  shows "DenseVoxelGrid_get (fill g v) x y z = v"
  using index_in_range [OF assms] assms(2)
  by (simp add: DenseVoxelGrid_get_def fill_def in_bounds_def index_def)

text \<open>
  C10. In the cube classification a corner's bit is set exactly when its value is strictly
  below the iso-value, so a corner whose value equals the iso-value counts as not inside.
  Hence in a grid whose cells all equal the iso-value every cube of the loop has index 0,
  and the extracted mesh is empty.
\<close>

theorem iso_corner_not_inside:
  assumes "\<forall>x y z. in_bounds g x y z \<longrightarrow> DenseVoxelGrid_get g x y z = iso_v"
  shows "(bit (cube_index_of cv iso_v) i \<longleftrightarrow> i < 8 \<and> cv ! i < iso_v) \<and>
         ((x, y, z) \<in> set (cube_range g) \<longrightarrow> cube_index_of (cube_corner_values g x y z) iso_v = 0) \<and>
         extract_surface tables g iso_v max_z = \<lparr>vertices = [], normals = [], indices = []\<rparr>"
proof -
  have skip: "\<And>c st. c \<in> set (cube_range g) \<Longrightarrow>
      (case c of (x, y, z) \<Rightarrow> process_cube tables g iso_v max_z x y z) st = st"
  proof -
    fix c :: "int \<times> int \<times> int" and st :: ExtractState
    assume c: "c \<in> set (cube_range g)"
    obtain x y z where xyz: "c = (x, y, z)" by (cases c) auto
    from uniform_cube_index [OF assms] c xyz
    have "cube_index_of (cube_corner_values g x y z) iso_v = 0" by simp
    then show "(case c of (x, y, z) \<Rightarrow> process_cube tables g iso_v max_z x y z) st = st"
      by (simp add: xyz process_cube_def Let_def)
  qed
  have "marching_cubes tables g iso_v max_z =
      \<lparr>mesh = \<lparr>vertices = [], normals = [], indices = []\<rparr>, vertex_cache = Map.empty,
       cubes_processed = 0, triangles_generated = 0\<rparr>"
    unfolding marching_cubes_fold by (rule fold_unchanged) (rule skip)
  then have "extract_surface tables g iso_v max_z = \<lparr>vertices = [], normals = [], indices = []\<rparr>"
    by (simp add: extract_surface_def compute_normals_empty)
  with uniform_cube_index [OF assms] show ?thesis
    by (simp add: cube_index_bit)
qed

theorem iso_corner_not_inside_witness:
  "\<not> bit (cube_index_of [0, - 1, 0, 0, 0, 0, 0, 0] 0) 0 \<and>
   bit (cube_index_of [0, - 1, 0, 0, 0, 0, 0, 0] 0) 1 \<and>
   cube_index_of (cube_corner_values (fill (DenseVoxelGrid_new 2 unit_box) 0) 0 0 0) 0 = 0 \<and>
   extract_surface no_tables (fill (DenseVoxelGrid_new 2 unit_box) 0) 0 FLT_MAX =
     \<lparr>vertices = [], normals = [], indices = []\<rparr>"
proof -
  let ?g = "fill (DenseVoxelGrid_new 2 unit_box) 0"
  have wf: "grid_wf (DenseVoxelGrid_new 2 unit_box)"
    by (simp add: grid_wf_def DenseVoxelGrid_new_def Let_def)
  have u: "\<forall>x y z. in_bounds ?g x y z \<longrightarrow> DenseVoxelGrid_get ?g x y z = 0"
  proof (intro allI impI)
    fix x y z assume "in_bounds ?g x y z"
    then have "in_bounds (DenseVoxelGrid_new 2 unit_box) x y z"
      by (simp add: in_bounds_def fill_def)
    then show "DenseVoxelGrid_get ?g x y z = 0" by (rule fill_get [OF wf])
  qed
  have r: "(0, 0, 0) \<in> set (cube_range ?g)"
    by (simp add: in_cube_range fill_def DenseVoxelGrid_new_def Let_def)
  from iso_corner_not_inside [OF u, of "[0, - 1, 0, 0, 0, 0, 0, 0]" 0 0 0 0 no_tables FLT_MAX]
       iso_corner_not_inside [OF u, of "[0, - 1, 0, 0, 0, 0, 0, 0]" 1 0 0 0 no_tables FLT_MAX] r
  show ?thesis by simp
qed

subsection \<open>Partial extraction\<close>


lemma edge_connections_lt8:
  assumes "edge < 12"
  shows "fst (edge_connections ! edge) < 8 \<and> snd (edge_connections ! edge) < 8"
proof -
  from assms have "edge \<in> {0, 1, 2, 3, 4, 5, 6, 7, 8, 9, 10, 11}" by simp arith
  then show ?thesis by (auto simp: edge_connections_def)
qed

lemma corner_position_z:
  assumes "i < 8" "0 \<le> voxel_size g"
  shows "vz (cube_corner_positions g x y z ! i) \<le> vz (cube_corner_positions g x y z ! 0) + voxel_size g"
proof -
  from \<open>i < 8\<close> have "i \<in> {0, 1, 2, 3, 4, 5, 6, 7}" by auto
  then show ?thesis
    using assms(2)
    by (auto simp: cube_corner_positions_def cube_corners_def corner_offsets_def iadd_def
          ivec3_of_def voxel_to_world_def vadd_def vscale_def vec3_of_def upt_rec [of _ 8]
          algebra_simps)
qed

lemma corner_position_0:
  "cube_corner_positions g x y z ! 0 = voxel_to_world g (ivec3_of x y z)"
  by (simp add: cube_corner_positions_def cube_corners_def corner_offsets_def iadd_def
        ivec3_of_def upt_rec [of _ 8])

lemma std_clamp_unit: "0 \<le> std_clamp v 0 (1::real) \<and> std_clamp v 0 1 \<le> 1"
  by (simp add: std_clamp_def)

lemma vmix_z:
  assumes "0 \<le> t" "t \<le> 1" "vz p \<le> B" "vz q \<le> B"
  shows "vz (vmix p q t) \<le> B"
proof -
  have "(1 - t) * vz p \<le> (1 - t) * B" using assms by (simp add: mult_left_mono)
  moreover have "t * vz q \<le> t * B" using assms by (simp add: mult_left_mono)
  ultimately have "(1 - t) * vz p + t * vz q \<le> B" by (simp add: algebra_simps)
  then show ?thesis by (simp add: vmix_def vadd_def vscale_def vec3_of_def)
qed

lemma edge_t_unit: "edge_t iso_v v0 v1 = Some t \<Longrightarrow> 0 \<le> t \<and> t \<le> 1"
  using std_clamp_unit [of "(iso_v - v0) / (v1 - v0 + 1 / 10000)"]
  by (auto simp: edge_t_def Let_def split: if_splits)

lemma edge_step_bound:
  assumes inv: "list_all (below_height B) (vertices (mesh (fst p)))"
    and cp: "\<And>i. i < 8 \<Longrightarrow> vz (cps ! i) \<le> B"
    and e: "edge < 12"
  shows "list_all (below_height B) (vertices (mesh (fst (edge_step iso_v x y z cvs cps flags edge p))))"
proof -
  obtain st ev where p: "p = (st, ev)" by (cases p) auto
  let ?c0 = "fst (edge_connections ! edge)" and ?c1 = "snd (edge_connections ! edge)"
  from edge_connections_lt8 [OF e] cp
  have c: "vz (cps ! ?c0) \<le> B" "vz (cps ! ?c1) \<le> B"
    by simp_all
  have "below_height B (map_option (vmix (cps ! ?c0) (cps ! ?c1)) (edge_t iso_v (cvs ! ?c0) (cvs ! ?c1)))"
  proof (cases "edge_t iso_v (cvs ! ?c0) (cvs ! ?c1)")
    case None
    then show ?thesis by (simp add: below_height_def)
  next
    case (Some t)
    from edge_t_unit [OF Some] have "0 \<le> t" "t \<le> 1" by simp_all
    from vmix_z [OF this c] Some show ?thesis by (simp add: below_height_def)
  qed
  then show ?thesis
    using inv by (auto simp: p Let_def split: option.splits)
qed

lemma edge_loop_bound:
  assumes "list_all (below_height B) (vertices (mesh (fst p)))"
    and "\<And>i. i < 8 \<Longrightarrow> vz (cps ! i) \<le> B"
    and "\<forall>e \<in> set es. e < 12"
  shows "list_all (below_height B) (vertices (mesh (fst (fold (edge_step iso_v x y z cvs cps flags) es p))))"
  using assms(1,3)
proof (induction es arbitrary: p)
  case Nil
  then show ?case by simp
next
  case (Cons e es)
  from Cons.prems have "e < 12" "\<forall>e \<in> set es. e < 12" by simp_all
  from Cons.IH [OF edge_step_bound [OF Cons.prems(1) assms(2) this(1)] this(2)]
  show ?case by simp
qed

lemma process_cube_bound:
  assumes vs: "0 \<le> voxel_size g"
    and inv: "list_all (below_height (max_z + voxel_size g)) (vertices (mesh st))"
  shows "list_all (below_height (max_z + voxel_size g)) (vertices (mesh (process_cube tables g iso_v max_z x y z st)))"
proof (cases "vz (cube_corner_positions g x y z ! 0) > max_z")
  case True
  then show ?thesis using inv by (simp add: process_cube_def Let_def)
next
  case False
  have cp: "\<And>i. i < 8 \<Longrightarrow> vz (cube_corner_positions g x y z ! i) \<le> max_z + voxel_size g"
    using corner_position_z [OF _ vs, of _ x y z] False by force
  have "\<And>flags. list_all (below_height (max_z + voxel_size g))
      (vertices (mesh (fst (fold (edge_step iso_v x y z (cube_corner_values g x y z)
          (cube_corner_positions g x y z) flags) [0..<12] (st, replicate 12 0)))))"
    by (rule edge_loop_bound) (use inv cp in simp_all)
  then show ?thesis
    using inv by (auto simp: process_cube_def Let_def split: prod.splits) (metis fst_conv)
qed

lemma fold_process_cube_bound:
  assumes "0 \<le> voxel_size g"
    and "list_all (below_height (max_z + voxel_size g)) (vertices (mesh st))"
  shows "list_all (below_height (max_z + voxel_size g))
           (vertices (mesh (fold (\<lambda>(x, y, z). process_cube tables g iso_v max_z x y z) cs st)))"
  using assms(2)
proof (induction cs arbitrary: st)
  case Nil
  then show ?case by simp
next
  case (Cons c cs)
  obtain x y z where c: "c = (x, y, z)" by (cases c) auto
  from Cons.IH [OF process_cube_bound [OF assms(1) Cons.prems, of tables iso_v x y z]]
  show ?case by (simp add: c)
qed

lemma compute_normals_vertices: "vertices (compute_normals m) = vertices m"
  by (simp add: compute_normals_def Let_def split: prod.splits)

text \<open>Apart from NaN vertices, no vertex lies more than one voxel above the cutoff.\<close>

lemma extract_surface_bound:
  assumes "0 \<le> voxel_size g"
  shows "list_all (below_height (max_z + voxel_size g)) (vertices (extract_surface tables g iso_v max_z))"
  unfolding extract_surface_def compute_normals_vertices marching_cubes_fold
  by (rule fold_process_cube_bound [OF assms]) simp

lemma process_cube_above:
  assumes "vz (voxel_to_world g (ivec3_of x y z)) > max_z"
  shows "process_cube tables g iso_v max_z x y z st = st"
  using assms by (simp add: process_cube_def Let_def corner_position_0)

lemma process_cube_below:
  assumes "vz (voxel_to_world g (ivec3_of x y z)) \<le> max_z" "vz (voxel_to_world g (ivec3_of x y z)) \<le> m"
  shows "process_cube tables g iso_v max_z x y z st = process_cube tables g iso_v m x y z st"
  using assms by (simp add: process_cube_def Let_def corner_position_0)



subsection \<open>Vertex welding\<close>






















subsection \<open>Build statistics\<close>









subsection \<open>Interpolation on a vanishing denominator\<close>

text \<open>The interpolation parameter is NaN exactly when the first corner sits on the
  iso-value and the second lies \<open>0.0001\<close> below it.\<close>

lemma edge_t_nan: "edge_t iso_v v0 v1 = None \<longleftrightarrow> iso_v = v0 \<and> v1 = v0 - 1 / 10000"
  by (auto simp: edge_t_def Let_def)













end
